theory Spec2Isabelle
  imports Main "HOL-Library.Word" "HOL-Library.Sublist"
begin

section \<open>The host agent's environment snapshot (jrasp-daemon/environ)\<close>

text \<open>
  This theory embeds \<^verbatim>\<open>jrasp-daemon/environ/environ.go\<close>. The Go code talks to the
  operating system through the standard library (\<^verbatim>\<open>path/filepath\<close>, \<^verbatim>\<open>strings\<close>,
  \<^verbatim>\<open>os\<close>, \<^verbatim>\<open>net\<close>) and through gopsutil; those calls are modelled first, on Unix,
  from their documented behaviour, and the functions of \<^verbatim>\<open>environ.go\<close> are then
  translated line by line on top of them.
\<close>

subsection \<open>Results of fallible calls\<close>

text \<open>
  A Go \<^verbatim>\<open>error\<close> value. A call returning \<^verbatim>\<open>(T, error)\<close> is a pair of the value and an
  \<open>error option\<close> (\<open>None\<close> is \<^verbatim>\<open>nil\<close>) where the code reads the value whatever the
  error is, and a sum \<open>error + T\<close> where it checks the error first.
\<close>

datatype error =
    ErrNotExist | ErrPermission | ErrIsDir | ErrNotDir | ErrNoRoute | ErrOther string

text \<open>How a function of \<^verbatim>\<open>environ.go\<close> ends: a value, a returned error, or a run-time panic.\<close>

datatype 'a outcome = Ok 'a | Err error | Panic

subsection \<open>\<^verbatim>\<open>strings.Split\<close> and \<^verbatim>\<open>strings.Join\<close> with a one-byte separator\<close>

fun split_on :: "char \<Rightarrow> string \<Rightarrow> string list" where
  "split_on c [] = [[]]"
| "split_on c (x # xs) =
     (if x = c then [] # split_on c xs
      else (case split_on c xs of [] \<Rightarrow> [[x]] | w # ws \<Rightarrow> (x # w) # ws))"

fun join_sep :: "string list \<Rightarrow> string" where
  "join_sep [] = []"
| "join_sep [x] = x"
| "join_sep (x # y # ys) = x @ CHR ''/'' # join_sep (y # ys)"

subsection \<open>\<^verbatim>\<open>path/filepath\<close> on Unix\<close>

text \<open>\<^verbatim>\<open>filepath.IsAbs\<close>: the path starts with the separator.\<close>

definition IsAbs :: "string \<Rightarrow> bool" where
  "IsAbs p = (case p of [] \<Rightarrow> False | c # _ \<Rightarrow> c = CHR ''/'')"

text \<open>The path elements \<^verbatim>\<open>Clean\<close> keeps at first: empty elements and \<^verbatim>\<open>.\<close> are skipped.\<close>

definition elems :: "string \<Rightarrow> string list" where
  "elems p = filter (\<lambda>c. c \<noteq> [] \<and> c \<noteq> ''.'') (split_on CHR ''/'' p)"

text \<open>
  One element of \<^verbatim>\<open>Clean\<close>'s scan; the output built so far is a stack of elements, the
  last one on top. A \<^verbatim>\<open>..\<close> removes the element before it when there is one to
  remove, is kept in a relative path, and is dropped at the root.
\<close>

definition clean_step :: "bool \<Rightarrow> string \<Rightarrow> string list \<Rightarrow> string list" where
  "clean_step r c st =
     (if c = ''..'' then
        (if st \<noteq> [] \<and> hd st \<noteq> ''..'' then tl st
         else if \<not> r then c # st
         else st)
      else c # st)"

definition Clean :: "string \<Rightarrow> string" where
  "Clean p =
     (if p = [] then ''.''
      else (let r = IsAbs p; out = rev (fold (clean_step r) (elems p) []) in
        if r then CHR ''/'' # join_sep out
        else if out = [] then ''.'' else join_sep out))"

text \<open>
  The name of a directory entry: not empty, not \<^verbatim>\<open>.\<close> or \<^verbatim>\<open>..\<close>, and free of the
  separator. An absolute path in clean form is the separator followed by such names,
  joined by separators.
\<close>

definition proper :: "string \<Rightarrow> bool" where
  "proper c = (c \<noteq> [] \<and> c \<noteq> ''.'' \<and> c \<noteq> ''..'' \<and> CHR ''/'' \<notin> set c)"


text \<open>The path up to and including its last separator (empty when there is none).\<close>

definition dir_prefix :: "string \<Rightarrow> string" where
  "dir_prefix p = rev (dropWhile (\<lambda>c. c \<noteq> CHR ''/'') (rev p))"

definition Dir :: "string \<Rightarrow> string" where
  "Dir p = Clean (dir_prefix p)"

definition Base :: "string \<Rightarrow> string" where
  "Base p =
     (if p = [] then ''.''
      else (let q = rev (dropWhile (\<lambda>c. c = CHR ''/'') (rev p));
                b = rev (takeWhile (\<lambda>c. c \<noteq> CHR ''/'') (rev q)) in
        if b = [] then ''/'' else b))"

text \<open>\<^verbatim>\<open>filepath.Join\<close>: leading empty elements are dropped, the rest joined and cleaned.\<close>

definition Join :: "string list \<Rightarrow> string" where
  "Join es = (case dropWhile (\<lambda>e. e = []) es of [] \<Rightarrow> [] | e # es' \<Rightarrow> Clean (join_sep (e # es')))"

text \<open>\<^verbatim>\<open>filepath.Abs\<close>, given what \<^verbatim>\<open>os.Getwd\<close> returns.\<close>

definition Abs :: "error + string \<Rightarrow> string \<Rightarrow> error + string" where
  "Abs wd p =
     (if IsAbs p then Inr (Clean p)
      else (case wd of Inl e \<Rightarrow> Inl e | Inr d \<Rightarrow> Inr (Join [d, p])))"

subsection \<open>\<^verbatim>\<open>strings.TrimSpace\<close>\<close>

text \<open>
  A Go string is a byte sequence, here a \<open>char list\<close>. \<^verbatim>\<open>TrimSpace\<close> removes the
  leading and the trailing white space as Unicode defines it
  (\<^verbatim>\<open>unicode.IsSpace\<close>); these are the UTF-8 encodings of the white-space code points:
  tab, line feed, vertical tab, form feed, carriage return, space, U+0085, U+00A0,
  U+1680, U+2000 to U+200A, U+2028, U+2029, U+202F, U+205F and U+3000. A byte
  sequence that is not one of them decodes to another rune (or to the error rune) and
  stops the trimming.
\<close>

definition space_runes :: "string list" where
  "space_runes =
     [[CHR 0x09], [CHR 0x0A], [CHR 0x0B], [CHR 0x0C], [CHR 0x0D], [CHR 0x20],
      [CHR 0xC2, CHR 0x85], [CHR 0xC2, CHR 0xA0],
      [CHR 0xE1, CHR 0x9A, CHR 0x80],
      [CHR 0xE2, CHR 0x80, CHR 0x80], [CHR 0xE2, CHR 0x80, CHR 0x81],
      [CHR 0xE2, CHR 0x80, CHR 0x82], [CHR 0xE2, CHR 0x80, CHR 0x83],
      [CHR 0xE2, CHR 0x80, CHR 0x84], [CHR 0xE2, CHR 0x80, CHR 0x85],
      [CHR 0xE2, CHR 0x80, CHR 0x86], [CHR 0xE2, CHR 0x80, CHR 0x87],
      [CHR 0xE2, CHR 0x80, CHR 0x88], [CHR 0xE2, CHR 0x80, CHR 0x89],
      [CHR 0xE2, CHR 0x80, CHR 0x8A],
      [CHR 0xE2, CHR 0x80, CHR 0xA8], [CHR 0xE2, CHR 0x80, CHR 0xA9],
      [CHR 0xE2, CHR 0x80, CHR 0xAF], [CHR 0xE2, CHR 0x81, CHR 0x9F],
      [CHR 0xE3, CHR 0x80, CHR 0x80]]"

text \<open>The white-space rune a string starts with, and the one it ends with, if any.\<close>

definition leading_space :: "string \<Rightarrow> string option" where
  "leading_space s = find (\<lambda>q. q \<noteq> [] \<and> prefix q s) space_runes"

definition trailing_space :: "string \<Rightarrow> string option" where
  "trailing_space s = find (\<lambda>q. q \<noteq> [] \<and> suffix q s) space_runes"

function TrimLeft :: "string \<Rightarrow> string" where
  "TrimLeft s = (case leading_space s of None \<Rightarrow> s | Some q \<Rightarrow> TrimLeft (drop (length q) s))"
  by pat_completeness auto
termination
  by (relation "measure length")
     (auto simp: leading_space_def find_Some_iff prefix_def)

function TrimRight :: "string \<Rightarrow> string" where
  "TrimRight s =
     (case trailing_space s of None \<Rightarrow> s | Some q \<Rightarrow> TrimRight (take (length s - length q) s))"
  by pat_completeness auto
termination
  by (relation "measure length")
     (auto simp: trailing_space_def find_Some_iff suffix_def)

declare TrimLeft.simps [simp del] TrimRight.simps [simp del]

definition TrimSpace :: "string \<Rightarrow> string" where
  "TrimSpace s = TrimRight (TrimLeft s)"

subsection \<open>The file system\<close>

text \<open>
  What the calls of package \<^verbatim>\<open>os\<close> see and change. A path names at most one node, a
  regular file with its bytes or a directory. The four fault tables say where the
  system refuses a call (a permission or I/O error) whatever the nodes are: \<open>stat_fault\<close>
  for \<^verbatim>\<open>os.Stat\<close>, \<open>read_fault\<close> for opening and reading a file, \<open>mkdir_fault\<close> for
  \<^verbatim>\<open>os.Mkdir\<close> and \<open>write_fault\<close> for creating and writing a file.
\<close>

datatype node = RegFile string | Directory

record filesys =
  nodes :: "string \<Rightarrow> node option"
  stat_fault :: "string \<Rightarrow> error option"
  read_fault :: "string \<Rightarrow> error option"
  mkdir_fault :: "string \<Rightarrow> error option"
  write_fault :: "string \<Rightarrow> error option"

definition os_Stat :: "filesys \<Rightarrow> string \<Rightarrow> error + node" where
  "os_Stat fs p =
     (case stat_fault fs p of
        Some e \<Rightarrow> Inl e
      | None \<Rightarrow> (case nodes fs p of None \<Rightarrow> Inl ErrNotExist | Some n \<Rightarrow> Inr n))"

definition os_ReadFile :: "filesys \<Rightarrow> string \<Rightarrow> error + string" where
  "os_ReadFile fs p =
     (case read_fault fs p of
        Some e \<Rightarrow> Inl e
      | None \<Rightarrow>
          (case nodes fs p of
             None \<Rightarrow> Inl ErrNotExist
           | Some Directory \<Rightarrow> Inl ErrIsDir
           | Some (RegFile b) \<Rightarrow> Inr b))"

text \<open>
  \<^verbatim>\<open>os.Mkdir\<close>, as \<^verbatim>\<open>os.MkdirAll\<close> calls it: the parent directory has just been found
  or made, so the call fails only on a fault or on a node that is already there.
\<close>

definition os_Mkdir :: "filesys \<Rightarrow> string \<Rightarrow> filesys \<times> error option" where
  "os_Mkdir fs p =
     (case mkdir_fault fs p of
        Some e \<Rightarrow> (fs, Some e)
      | None \<Rightarrow>
          (case nodes fs p of
             Some n \<Rightarrow> (fs, Some (ErrOther ''file exists''))
           | None \<Rightarrow> (fs\<lparr>nodes := (nodes fs)(p \<mapsto> Directory)\<rparr>, None)))"

text \<open>
  The directories \<^verbatim>\<open>os.MkdirAll\<close> visits for a path: every prefix of the path that
  ends before a separator, and the path itself, the longest last. The root is not
  among them: it always exists.
\<close>

definition dir_chain :: "string \<Rightarrow> string list" where
  "dir_chain d =
     map (\<lambda>k. take k d)
       (filter (\<lambda>k. d ! k = CHR ''/'' \<and> d ! (k - 1) \<noteq> CHR ''/'') [1..<length d]) @ [d]"

text \<open>
  \<^verbatim>\<open>os.MkdirAll\<close> on a path and its ancestors, the path first: a directory that is there
  ends the call, a file in its place is an error, and otherwise the parent is made
  first and the directory after it.
\<close>

fun mkdir_all :: "filesys \<Rightarrow> string list \<Rightarrow> filesys \<times> error option" where
  "mkdir_all fs [] = (fs, None)"
| "mkdir_all fs (p # ups) =
     (case os_Stat fs p of
        Inr Directory \<Rightarrow> (fs, None)
      | Inr (RegFile b) \<Rightarrow> (fs, Some ErrNotDir)
      | Inl e \<Rightarrow>
          (case mkdir_all fs ups of
             (fs', Some e') \<Rightarrow> (fs', Some e')
           | (fs', None) \<Rightarrow> os_Mkdir fs' p))"

definition os_MkdirAll :: "filesys \<Rightarrow> string \<Rightarrow> filesys \<times> error option" where
  "os_MkdirAll fs d = mkdir_all fs (rev (dir_chain d))"

text \<open>
  \<^verbatim>\<open>os.WriteFile\<close>: creates or truncates the file and writes the bytes. The directory
  that holds the file has to exist.
\<close>

definition os_WriteFile :: "filesys \<Rightarrow> string \<Rightarrow> string \<Rightarrow> filesys \<times> error option" where
  "os_WriteFile fs p b =
     (case write_fault fs p of
        Some e \<Rightarrow> (fs, Some e)
      | None \<Rightarrow>
          (case nodes fs p of
             Some Directory \<Rightarrow> (fs, Some ErrIsDir)
           | _ \<Rightarrow>
               (case nodes fs (Dir p) of
                  None \<Rightarrow> (fs, Some ErrNotExist)
                | Some (RegFile c) \<Rightarrow> (fs, Some ErrNotDir)
                | Some Directory \<Rightarrow> (fs\<lparr>nodes := (nodes fs)(p \<mapsto> RegFile b)\<rparr>, None))))"

text \<open>
  Modelled from the spec: \<^verbatim>\<open>utils.PathExists\<close>, of package \<^verbatim>\<open>jrasp-daemon/utils\<close>, is
  not among the sources. The specification treats it as the generic file-existence
  check: true if and only if the file exists at the checked path, false on absence and
  false on a permissions error, which is the error it returns.
\<close>

definition PathExists :: "filesys \<Rightarrow> string \<Rightarrow> bool \<times> error option" where
  "PathExists fs p =
     (case os_Stat fs p of
        Inr n \<Rightarrow> (True, None)
      | Inl e \<Rightarrow> if e = ErrNotExist then (False, None) else (False, Some e))"

subsection \<open>Package \<^verbatim>\<open>net\<close>\<close>

text \<open>
  An IPv4 address is four bytes; \<^verbatim>\<open>IP.String\<close> prints them in decimal, separated by
  dots. \<open>uitoa\<close> is the decimal numeral of a number.
\<close>

type_synonym ipv4 = "8 word \<times> 8 word \<times> 8 word \<times> 8 word"

fun uitoa :: "nat \<Rightarrow> string" where
  "uitoa n = (if n < 10 then [char_of (48 + n)] else uitoa (n div 10) @ [char_of (48 + n mod 10)])"

declare uitoa.simps [simp del]

definition IP_String :: "ipv4 \<Rightarrow> string" where
  "IP_String ip =
     (case ip of (a, b, c, d) \<Rightarrow>
        uitoa (unat a) @ ''.'' @ uitoa (unat b) @ ''.'' @ uitoa (unat c) @ ''.'' @ uitoa (unat d))"

text \<open>
  A value of the interface \<^verbatim>\<open>net.Addr\<close>: nil, or a pointer to one of the address
  types of package \<^verbatim>\<open>net\<close>. \<^verbatim>\<open>Conn.LocalAddr\<close> returns the local address of a
  connection if it is known, and nil if it is not.
\<close>

datatype addr = NilAddr | UDPAddr ipv4 nat | TCPAddr ipv4 nat | UnixAddr string

record conn =
  LocalAddr :: addr

subsection \<open>The machine\<close>

text \<open>
  Everything \<^verbatim>\<open>NewEnviron\<close> reads from the process, the operating system and the
  collaborators, and the two things it changes: the file system and the open sockets.
  \<open>connect\<close> is the answer to a dial on a network to an address: an error, or the
  local address that package \<^verbatim>\<open>net\<close> records for the new socket. On a datagram
  network that is a \<^verbatim>\<open>*net.UDPAddr\<close> with the endpoint the routing table selects, or
  nil when the name of the socket cannot be read back.
  \<open>VirtualMemory\<close> is the pair that \<^verbatim>\<open>mem.VirtualMemory\<close> returns, a pointer that may
  be nil and an error. \<^verbatim>\<open>utils.GetFileMd5\<close>, the constants of package \<^verbatim>\<open>defs\<close> and
  the values of the build variables are not among the sources and are parameters.
\<close>

record VirtualMemoryStat =
  Total :: "64 word"

record UsageStat =
  Free :: "64 word"

record world =
  fs :: filesys
  open_socks :: nat
  Args0 :: string
  Getwd :: "error + string"
  GetFileMd5 :: "string \<Rightarrow> error + string"
  connect :: "string \<Rightarrow> string \<Rightarrow> error + addr"
  Hostname :: "string \<times> error option"
  VirtualMemory :: "VirtualMemoryStat option \<times> error option"
  Usage :: "string \<Rightarrow> error + UsageStat"
  Counts :: "int \<times> error option"
  GOOS :: string
  JRASP_DAEMON_VERSION :: string
  DAEMON_PID_FILE :: string
  BuildDateTime_var :: string
  BuildGitBranch_var :: string
  BuildGitCommit_var :: string
  BuildDecryptKey_var :: string

text \<open>
  \<^verbatim>\<open>net.Dial\<close>: a failed dial returns the error and leaves no socket behind; a
  successful one leaves one more socket open, which \<^verbatim>\<open>Close\<close> releases.
\<close>

definition net_Dial :: "world \<Rightarrow> string \<Rightarrow> string \<Rightarrow> (error + conn) \<times> world" where
  "net_Dial w network address =
     (case connect w network address of
        Inl e \<Rightarrow> (Inl e, w)
      | Inr a \<Rightarrow> (Inr \<lparr>LocalAddr = a\<rparr>, w\<lparr>open_socks := Suc (open_socks w)\<rparr>))"

definition conn_Close :: "world \<Rightarrow> conn \<Rightarrow> world" where
  "conn_Close w c = w\<lparr>open_socks := open_socks w - 1\<rparr>"

subsection \<open>\<^verbatim>\<open>environ.go\<close>\<close>

definition HOST_NAME :: string where
  "HOST_NAME = ''hostname.txt''"

definition GB :: "64 word" where
  "GB = 1024 * 1024 * 1024"

record Environ =
  InstallDir :: string
  HostName :: string
  Ip :: string
  OsType :: string
  BinFileName :: string
  BinFileHash :: string
  TotalMem :: "64 word"
  CpuCounts :: int
  FreeDisk :: "64 word"
  Version :: string
  BuildDateTime :: string
  BuildGitBranch :: string
  BuildGitCommit :: string
  BuildDecryptKey :: string
  PidFile :: string
  IsContainer :: bool
  IsConnectServer :: bool

definition readHostNameFromFile :: "filesys \<Rightarrow> string \<Rightarrow> string \<times> error option" where
  "readHostNameFromFile s hostFile =
     (case PathExists s hostFile of (existed, err) \<Rightarrow>
        if \<not> existed then ([], err)
        else (case os_ReadFile s hostFile of
                Inl e \<Rightarrow> ([], Some e)
              | Inr b \<Rightarrow> (TrimSpace b, None)))"

definition writeHostNameToFile :: "filesys \<Rightarrow> string \<Rightarrow> string \<Rightarrow> filesys \<times> error option" where
  "writeHostNameToFile s hostFile hostName =
     (case os_MkdirAll s (Dir hostFile) of
        (s', Some e) \<Rightarrow> (s', Some e)
      | (s', None) \<Rightarrow> os_WriteFile s' hostFile (hostName))"

text \<open>
  \<^verbatim>\<open>getHostname\<close> returns the host name; the world it leaves behind is the second
  component. The error of the write is built into a value that nothing reads.
\<close>

definition getHostname :: "world \<Rightarrow> string \<Rightarrow> string \<times> world" where
  "getHostname w execDir =
     (let hostName = [];
          hostFile = Join [execDir, ''config'', HOST_NAME];
          hostName = (case readHostNameFromFile (fs w) hostFile of
                        (hostNameFromFile, None) \<Rightarrow> hostNameFromFile
                      | (hostNameFromFile, Some e) \<Rightarrow> hostName);
          hostName = (if hostName = [] then fst (Hostname w) else hostName)
      in (case writeHostNameToFile (fs w) hostFile hostName of
            (s', err) \<Rightarrow> (hostName, w\<lparr>fs := s'\<rparr>)))"

definition isContainer :: "world \<Rightarrow> bool" where
  "isContainer w = fst (PathExists (fs w) ''/.dockerenv'')"

text \<open>
  \<^verbatim>\<open>GetDefaultIp\<close>. The type assertion on the local address is unchecked: it panics
  on nil and on any other dynamic type. So does the index \<^verbatim>\<open>[0]\<close> on an empty
  slice. The deferred \<^verbatim>\<open>Close\<close> runs on the way out of both and of the normal return.
\<close>

definition GetDefaultIp :: "world \<Rightarrow> string outcome \<times> world" where
  "GetDefaultIp w =
     (case net_Dial w ''udp'' ''114.114.114.114:53'' of
        (Inl e, w1) \<Rightarrow> (Err e, w1)
      | (Inr c, w1) \<Rightarrow>
          (case LocalAddr c of
             UDPAddr ip port \<Rightarrow>
               (case split_on CHR '':'' (IP_String ip) of
                  [] \<Rightarrow> (Panic, conn_Close w1 c)
                | x # xs \<Rightarrow> (Ok x, conn_Close w1 c))
           | _ \<Rightarrow> (Panic, conn_Close w1 c)))"

definition GetInstallDisk :: "world \<Rightarrow> string \<Rightarrow> 64 word \<times> error option" where
  "GetInstallDisk w path =
     (case Usage w path of
        Inl e \<Rightarrow> (0, Some e)
      | Inr state \<Rightarrow> (Free state div GB, None))"

text \<open>
  \<^verbatim>\<open>NewEnviron\<close>. The fields of the struct literal are evaluated in the order they are
  written: \<^verbatim>\<open>getHostname\<close> has run when \<^verbatim>\<open>memInfo.Total\<close> dereferences the pointer
  that \<^verbatim>\<open>mem.VirtualMemory\<close> returned, and a nil pointer panics there.
\<close>

definition NewEnviron :: "world \<Rightarrow> Environ outcome \<times> world" where
  "NewEnviron w =
     (case Abs (Getwd w) (Args0 w) of
        Inl e \<Rightarrow> (Err e, w)
      | Inr execPath \<Rightarrow>
          (let execDir = Dir (Dir execPath) in
           case GetFileMd5 w execPath of
             Inl e \<Rightarrow> (Err e, w)
           | Inr md5Str \<Rightarrow>
               (let execName = Base execPath in
                case GetDefaultIp w of
                  (Err e, w1) \<Rightarrow> (Err e, w1)
                | (Panic, w1) \<Rightarrow> (Panic, w1)
                | (Ok ipAddress, w1) \<Rightarrow>
                    (let memInfo = fst (VirtualMemory w1);
                         FreeDisk = fst (GetInstallDisk w1 execDir);
                         cpuCounts = fst (Counts w1);
                         isContainer = fst (PathExists (fs w1) ''/.dockerenv'')
                     in case getHostname w1 execDir of
                          (hostName, w2) \<Rightarrow>
                            (case memInfo of
                               None \<Rightarrow> (Panic, w2)
                             | Some m \<Rightarrow>
                                 (Ok \<lparr>InstallDir = execDir,
                                      HostName = hostName,
                                      Ip = ipAddress,
                                      OsType = GOOS w2,
                                      BinFileName = execName,
                                      BinFileHash = md5Str,
                                      TotalMem = Total m div GB,
                                      CpuCounts = cpuCounts,
                                      FreeDisk = FreeDisk,
                                      Version = JRASP_DAEMON_VERSION w2,
                                      BuildDateTime = BuildDateTime_var w2,
                                      BuildGitBranch = BuildGitBranch_var w2,
                                      BuildGitCommit = BuildGitCommit_var w2,
                                      BuildDecryptKey = BuildDecryptKey_var w2,
                                      PidFile = Join [execDir, DAEMON_PID_FILE w2],
                                      IsContainer = isContainer,
                                      IsConnectServer = False\<rparr>, w2))))))"

text \<open>
  A file system accepts a file when nothing stands in the way of making its directory
  and writing it: no call is refused on the directory or on one of its ancestors, none
  of them is a regular file, the write of the file is not refused and the file is not a
  directory.
\<close>

definition accepts :: "filesys \<Rightarrow> string \<Rightarrow> bool" where
  "accepts s f =
     ((\<forall>q\<in>set (dir_chain (Dir f)).
         stat_fault s q = None \<and> mkdir_fault s q = None \<and>
         (case nodes s q of Some (RegFile b) \<Rightarrow> False | _ \<Rightarrow> True)) \<and>
      write_fault s f = None \<and> nodes s f \<noteq> Some Directory)"

subsection \<open>A machine to run the code on\<close>

text \<open>
  A file system that holds the root directory only and refuses nothing, one that holds
  the cache file of the agent with given bytes, and a machine with the first file
  system: the agent is started as \<^verbatim>\<open>/opt/agent/bin/agentd\<close>, the
  route to the outside leaves from 10.0.0.7, and the host is called \<^verbatim>\<open>web-01\<close>.
\<close>

definition bare_fs :: filesys where
  "bare_fs = \<lparr>nodes = [''/'' \<mapsto> Directory], stat_fault = Map.empty, read_fault = Map.empty,
     mkdir_fault = Map.empty, write_fault = Map.empty\<rparr>"

definition cached_fs :: "string \<Rightarrow> filesys" where
  "cached_fs b = bare_fs\<lparr>nodes :=
     [''/'' \<mapsto> Directory, ''/opt'' \<mapsto> Directory, ''/opt/agent'' \<mapsto> Directory,
      ''/opt/agent/config'' \<mapsto> Directory,
      ''/opt/agent/config/hostname.txt'' \<mapsto> RegFile b]\<rparr>"

definition example_world :: world where
  "example_world =
     \<lparr>fs = bare_fs, open_socks = 0, Args0 = ''/opt/agent/bin/agentd'', Getwd = Inr ''/'',
      GetFileMd5 = (\<lambda>p. Inr ''9e107d9d372bb6826bd81d3542a419d6''),
      connect = (\<lambda>n a. Inr (UDPAddr (10, 0, 0, 7) 40000)),
      Hostname = (''web-01'', None),
      VirtualMemory = (Some \<lparr>Total = 17179869184\<rparr>, None),
      Usage = (\<lambda>p. Inr \<lparr>Free = 5368709120\<rparr>), Counts = (8, None), GOOS = ''linux'',
      JRASP_DAEMON_VERSION = ''1.1.2'', DAEMON_PID_FILE = ''jrasp.pid'',
      BuildDateTime_var = [], BuildGitBranch_var = [], BuildGitCommit_var = [],
      BuildDecryptKey_var = []\<rparr>"

section \<open>Properties\<close>

subsection \<open>The route probe\<close>

lemma split_on_not_Nil: "split_on c s \<noteq> []"
  by (induction s) (auto split: list.splits)

lemma split_on_absent: "c \<notin> set s \<Longrightarrow> split_on c s = [s]"
  by (induction s) auto

lemma digit_not_colon: "(n::nat) < 10 \<Longrightarrow> char_of (48 + n) \<noteq> CHR '':''"
proof
  assume n: "n < 10" and eq: "char_of (48 + n) = CHR '':''"
  from eq have "of_char (char_of (48 + n)) = (of_char (CHR '':'') :: nat)" by simp
  then have "(48 + n) mod 256 = 58" by simp
  with n show False by simp
qed

lemma uitoa_no_colon: "CHR '':'' \<notin> set (uitoa n)"
proof (induction n rule: uitoa.induct)
  case (1 n)
  show ?case
  proof (cases "n < 10")
    case True
    then show ?thesis using digit_not_colon [of n] by (subst uitoa.simps) simp
  next
    case False
    have "n mod 10 < 10" by simp
    then have "char_of (48 + n mod 10) \<noteq> CHR '':''" by (rule digit_not_colon)
    with False 1 show ?thesis by (subst uitoa.simps) auto
  qed
qed

lemma IP_String_no_colon: "CHR '':'' \<notin> set (IP_String ip)"
  by (cases ip) (simp add: IP_String_def uitoa_no_colon)


lemma GetDefaultIp_connect_Inl:
  "connect w ''udp'' ''114.114.114.114:53'' = Inl e \<Longrightarrow> GetDefaultIp w = (Err e, w)"
  by (simp add: GetDefaultIp_def net_Dial_def)

lemma GetDefaultIp_connect_Inr:
  "connect w ''udp'' ''114.114.114.114:53'' = Inr (UDPAddr ip port) \<Longrightarrow>
   GetDefaultIp w = (Ok (IP_String ip), w)"
  by (simp add: GetDefaultIp_def net_Dial_def conn_Close_def
      split_on_absent [OF IP_String_no_colon])

lemma GetDefaultIp_connect_other:
  "connect w ''udp'' ''114.114.114.114:53'' = Inr a \<Longrightarrow> \<forall>ip port. a \<noteq> UDPAddr ip port \<Longrightarrow>
   GetDefaultIp w = (Panic, w)"
  by (cases a) (simp_all add: GetDefaultIp_def net_Dial_def conn_Close_def)

lemma GetDefaultIp_cases:
  "(\<exists>e. connect w ''udp'' ''114.114.114.114:53'' = Inl e \<and> GetDefaultIp w = (Err e, w)) \<or>
   (\<exists>ip port. connect w ''udp'' ''114.114.114.114:53'' = Inr (UDPAddr ip port) \<and>
      GetDefaultIp w = (Ok (IP_String ip), w)) \<or>
   (\<exists>a. connect w ''udp'' ''114.114.114.114:53'' = Inr a \<and> (\<forall>ip port. a \<noteq> UDPAddr ip port) \<and>
      GetDefaultIp w = (Panic, w))"
proof (cases "connect w ''udp'' ''114.114.114.114:53''")
  case (Inl e)
  then show ?thesis by (simp add: GetDefaultIp_connect_Inl)
next
  case (Inr a)
  show ?thesis
  proof (cases "\<exists>ip port. a = UDPAddr ip port")
    case True
    with Inr show ?thesis by (auto simp: GetDefaultIp_connect_Inr)
  next
    case False
    with Inr have "GetDefaultIp w = (Panic, w)" by (simp add: GetDefaultIp_connect_other)
    with Inr False show ?thesis by simp
  qed
qed




text \<open>
  \<^verbatim>\<open>GetDefaultIp\<close> panics exactly when the dial succeeds and the local address of the
  connection is not a UDP address; the index \<^verbatim>\<open>[0]\<close> never panics.
\<close>

lemma GetDefaultIp_Panic_iff:
  "fst (GetDefaultIp w) = Panic \<longleftrightarrow>
     (\<exists>a. connect w ''udp'' ''114.114.114.114:53'' = Inr a \<and> (\<forall>ip port. a \<noteq> UDPAddr ip port))"
  using GetDefaultIp_cases [of w] by auto

text \<open>
  Claim C10. A dial that succeeds with a connection whose local address is not known
  gives \<^verbatim>\<open>LocalAddr\<close> the value nil; the unchecked type assertion panics on it, after
  the socket has been opened, and the deferred \<^verbatim>\<open>Close\<close> releases the socket.
\<close>

theorem GetDefaultIp_nil_LocalAddr_panics:
  "net_Dial (example_world\<lparr>connect := (\<lambda>n a. Inr NilAddr)\<rparr>) ''udp'' ''114.114.114.114:53'' =
     (Inr \<lparr>LocalAddr = NilAddr\<rparr>,
      example_world\<lparr>connect := (\<lambda>n a. Inr NilAddr), open_socks := 1\<rparr>) \<and>
   GetDefaultIp (example_world\<lparr>connect := (\<lambda>n a. Inr NilAddr)\<rparr>) =
     (Panic, example_world\<lparr>connect := (\<lambda>n a. Inr NilAddr)\<rparr>)"
  by (simp add: GetDefaultIp_def net_Dial_def conn_Close_def example_world_def)

subsection \<open>Clean paths\<close>

lemma split_on_append:
  "split_on c (a @ c # b) = split_on c a @ split_on c b"
proof (induction a)
  case Nil
  then show ?case by simp
next
  case (Cons x a)
  then show ?case
    using split_on_not_Nil [of c a]
    by (cases "split_on c a") auto
qed

lemma split_on_pieces: "x \<in> set (split_on c s) \<Longrightarrow> c \<notin> set x"
proof (induction s arbitrary: x)
  case Nil
  then show ?case by simp
next
  case (Cons y s)
  then show ?case
    by (cases "split_on c s") (auto split: if_splits)
qed

lemma split_on_join:
  "cs \<noteq> [] \<Longrightarrow> \<forall>x\<in>set cs. CHR ''/'' \<notin> set x \<Longrightarrow> split_on CHR ''/'' (join_sep cs) = cs"
proof (induction cs rule: join_sep.induct)
  case 1
  then show ?case by simp
next
  case (2 x)
  then show ?case by (simp add: split_on_absent)
next
  case (3 x y ys)
  then show ?case by (simp add: split_on_append split_on_absent)
qed

lemma join_sep_snoc:
  "xs \<noteq> [] \<Longrightarrow> join_sep (xs @ [b]) = join_sep xs @ CHR ''/'' # b"
  by (induction xs rule: join_sep.induct) auto

lemma dir_prefix_append:
  "CHR ''/'' \<notin> set b \<Longrightarrow> dir_prefix (a @ CHR ''/'' # b) = a @ ''/''"
  by (auto simp: dir_prefix_def dropWhile_append)

lemma dir_prefix_plain:
  "CHR ''/'' \<notin> set b \<Longrightarrow> dir_prefix b = []"
  by (auto simp: dir_prefix_def)

lemma fold_clean_step_proper:
  "\<forall>x\<in>set es. x \<noteq> ''..'' \<Longrightarrow> fold (clean_step r) es st = rev es @ st"
  by (induction es arbitrary: st) (auto simp: clean_step_def)

lemma elems_root_join:
  assumes "\<forall>x\<in>set cs. proper x"
  shows "elems (CHR ''/'' # join_sep cs) = cs"
proof (cases "cs = []")
  case True
  then show ?thesis by (simp add: elems_def)
next
  case False
  with assms have "split_on CHR ''/'' (join_sep cs) = cs"
    by (intro split_on_join) (auto simp: proper_def)
  moreover from assms have "filter (\<lambda>c. c \<noteq> [] \<and> c \<noteq> ''.'') cs = cs"
    by (intro filter_True) (auto simp: proper_def)
  ultimately show ?thesis by (simp add: elems_def)
qed

lemma Clean_root_join:
  assumes "\<forall>x\<in>set cs. proper x"
  shows "Clean (CHR ''/'' # join_sep cs) = CHR ''/'' # join_sep cs"
proof -
  from assms have "\<forall>x\<in>set cs. x \<noteq> ''..''" by (auto simp: proper_def)
  then have "fold (clean_step True) cs [] = rev cs" by (simp add: fold_clean_step_proper)
  with assms show ?thesis
    by (simp add: Clean_def IsAbs_def elems_root_join)
qed

lemma elems_trailing_sep: "elems (p @ ''/'') = elems p"
  using split_on_append [of "CHR ''/''" p "[]"] by (simp add: elems_def)

lemma Clean_trailing_sep: "p \<noteq> [] \<Longrightarrow> Clean (p @ ''/'') = Clean p"
  using elems_trailing_sep [of p] by (cases p) (simp_all add: Clean_def IsAbs_def)

lemma Dir_root_join:
  assumes "\<forall>x\<in>set cs. proper x"
  shows "Dir (CHR ''/'' # join_sep cs) = CHR ''/'' # join_sep (butlast cs)"
proof (cases cs rule: rev_cases)
  case Nil
  then show ?thesis by (simp add: Dir_def dir_prefix_def Clean_def IsAbs_def elems_def)
next
  case (snoc xs x)
  with assms have x: "CHR ''/'' \<notin> set x" and xs: "\<forall>y\<in>set xs. proper y"
    by (auto simp: proper_def)
  show ?thesis
  proof (cases "xs = []")
    case True
    with snoc x have "dir_prefix (CHR ''/'' # join_sep cs) = ''/''"
      using dir_prefix_append [of x "[]"] by simp
    with True snoc show ?thesis
      by (simp add: Dir_def Clean_def IsAbs_def elems_def)
  next
    case False
    with snoc have "CHR ''/'' # join_sep cs = (CHR ''/'' # join_sep xs) @ CHR ''/'' # x"
      by (simp add: join_sep_snoc)
    with x have "dir_prefix (CHR ''/'' # join_sep cs) = (CHR ''/'' # join_sep xs) @ ''/''"
      using dir_prefix_append [of x "CHR ''/'' # join_sep xs"] by simp
    then have "Dir (CHR ''/'' # join_sep cs) = Clean (CHR ''/'' # join_sep xs)"
      using Clean_trailing_sep [of "CHR ''/'' # join_sep xs"] by (simp add: Dir_def)
    with xs snoc show ?thesis by (simp add: Clean_root_join)
  qed
qed

lemma clean_step_rooted_keeps:
  assumes "\<forall>x\<in>set st. Q x" and "e = ''..'' \<or> Q e"
  shows "\<forall>x\<in>set (clean_step True e st). Q x"
proof (cases "e = ''..''")
  case True
  have "set (tl st) \<subseteq> set st" by (cases st) auto
  with assms(1) True show ?thesis by (auto simp only: clean_step_def split: if_splits)
next
  case False
  with assms show ?thesis by (simp only: clean_step_def if_False set_simps ball_simps) simp
qed

lemma fold_clean_step_rooted:
  assumes "\<forall>x\<in>set es. x = ''..'' \<or> Q x" and "\<forall>x\<in>set st. Q x"
  shows "\<forall>x\<in>set (fold (clean_step True) es st). Q x"
  using assms
proof (induction es arbitrary: st)
  case Nil
  then show ?case by simp
next
  case (Cons e es)
  from Cons.prems have "e = ''..'' \<or> Q e" by simp
  with Cons.prems(2) have "\<forall>x\<in>set (clean_step True e st). Q x"
    by (rule clean_step_rooted_keeps)
  moreover from Cons.prems(1) have "\<forall>x\<in>set es. x = ''..'' \<or> Q x" by simp
  ultimately have "\<forall>x\<in>set (fold (clean_step True) es (clean_step True e st)). Q x"
    by (rule Cons.IH [rotated])
  then show ?case by simp
qed

lemma elems_pieces:
  assumes "x \<in> set (elems p)"
  shows "x = ''..'' \<or> proper x"
proof -
  from assms have "x \<in> set (split_on CHR ''/'' p)" and "x \<noteq> []" and "x \<noteq> ''.''"
    by (simp_all add: elems_def)
  then have "CHR ''/'' \<notin> set x" by (simp add: split_on_pieces)
  with \<open>x \<noteq> []\<close> \<open>x \<noteq> ''.''\<close> show ?thesis
    unfolding proper_def by blast
qed

lemma Clean_rooted_shape:
  assumes "IsAbs p"
  shows "\<exists>cs. (\<forall>x\<in>set cs. proper x) \<and> Clean p = CHR ''/'' # join_sep cs"
proof -
  let ?out = "fold (clean_step True) (elems p) []"
  have "\<forall>x\<in>set ?out. proper x"
    by (rule fold_clean_step_rooted) (simp_all add: elems_pieces)
  then have "\<forall>x\<in>set (rev ?out). proper x" by simp
  moreover from assms have "Clean p = CHR ''/'' # join_sep (rev ?out)"
    by (auto simp: Clean_def IsAbs_def)
  ultimately show ?thesis by blast
qed












lemma dir_chain_lengths: "q \<in> set (dir_chain d) \<Longrightarrow> length q \<le> length d"
  by (auto simp: dir_chain_def)

lemma dir_chain_distinct: "distinct (dir_chain d)"
proof -
  define ks where "ks = filter (\<lambda>k. d ! k = CHR ''/'' \<and> d ! (k - 1) \<noteq> CHR ''/'') [1..<length d]"
  have ks: "\<And>k. k \<in> set ks \<Longrightarrow> k < length d" and dks: "distinct ks"
    by (simp_all add: ks_def)
  have "inj_on (\<lambda>k. take k d) (set ks)"
  proof (rule inj_onI)
    fix k l assume k: "k \<in> set ks" and l: "l \<in> set ks" and e: "take k d = take l d"
    from e have "length (take k d) = length (take l d)" by simp
    with ks [OF k] ks [OF l] show "k = l" by simp
  qed
  with dks have "distinct (map (\<lambda>k. take k d) ks)" by (simp add: distinct_map)
  moreover have "d \<notin> set (map (\<lambda>k. take k d) ks)"
  proof
    assume "d \<in> set (map (\<lambda>k. take k d) ks)"
    then obtain k where k: "k \<in> set ks" and e: "d = take k d" by auto
    from e [symmetric] have "length (take k d) = length d" by (rule arg_cong)
    with ks [OF k] show False by simp
  qed
  moreover have "dir_chain d = map (\<lambda>k. take k d) ks @ [d]"
    by (simp add: dir_chain_def ks_def)
  ultimately show ?thesis by simp
qed

subsection \<open>Reading the cached host name\<close>

lemma readHostNameFromFile_missing:
  "stat_fault s f = None \<Longrightarrow> nodes s f = None \<Longrightarrow> readHostNameFromFile s f = ([], None)"
  by (simp add: readHostNameFromFile_def PathExists_def os_Stat_def)

lemma readHostNameFromFile_file:
  "stat_fault s f = None \<Longrightarrow> read_fault s f = None \<Longrightarrow> nodes s f = Some (RegFile b) \<Longrightarrow>
   readHostNameFromFile s f = (TrimSpace b, None)"
  by (simp add: readHostNameFromFile_def PathExists_def os_Stat_def os_ReadFile_def)

lemma readHostNameFromFile_error:
  "snd (readHostNameFromFile s f) \<noteq> None \<Longrightarrow> fst (readHostNameFromFile s f) = []"
  by (auto simp: readHostNameFromFile_def split: prod.splits sum.splits if_splits)

lemma getHostname_value:
  "fst (getHostname w d) =
     (if fst (readHostNameFromFile (fs w) (Join [d, ''config'', HOST_NAME])) = []
      then fst (Hostname w)
      else fst (readHostNameFromFile (fs w) (Join [d, ''config'', HOST_NAME])))"
proof -
  obtain v e where r: "readHostNameFromFile (fs w) (Join [d, ''config'', HOST_NAME]) = (v, e)"
    by (cases "readHostNameFromFile (fs w) (Join [d, ''config'', HOST_NAME])")
  show ?thesis
  proof (cases e)
    case None
    with r show ?thesis by (simp add: getHostname_def Let_def split: prod.splits)
  next
    case (Some x)
    with r readHostNameFromFile_error [of "fs w" "Join [d, ''config'', HOST_NAME]"]
    have "v = []" by simp
    with r Some show ?thesis by (simp add: getHostname_def Let_def split: prod.splits)
  qed
qed

lemma getHostname_world:
  "snd (getHostname w d) =
     w\<lparr>fs := fst (writeHostNameToFile (fs w) (Join [d, ''config'', HOST_NAME]) (fst (getHostname w d)))\<rparr>"
  by (simp add: getHostname_def Let_def split: prod.splits option.splits)

lemma os_Stat_faults: "os_Stat (s\<lparr>mkdir_fault := mk, write_fault := wr\<rparr>) f = os_Stat s f"
  by (simp add: os_Stat_def split: option.splits)

lemma os_ReadFile_faults: "os_ReadFile (s\<lparr>mkdir_fault := mk, write_fault := wr\<rparr>) f = os_ReadFile s f"
  by (simp add: os_ReadFile_def split: option.splits node.splits)

lemma readHostNameFromFile_faults:
  "readHostNameFromFile (s\<lparr>mkdir_fault := mk, write_fault := wr\<rparr>) f = readHostNameFromFile s f"
  by (simp add: readHostNameFromFile_def PathExists_def os_Stat_faults os_ReadFile_faults
      split: prod.splits sum.splits)

subsection \<open>Trimming white space\<close>

lemma TrimLeft_no_space: "leading_space s = None \<Longrightarrow> TrimLeft s = s"
  by (subst TrimLeft.simps) simp

lemma TrimRight_no_space: "trailing_space s = None \<Longrightarrow> TrimRight s = s"
  by (subst TrimRight.simps) simp






lemma TrimSpace_Nil: "TrimSpace [] = []"
proof -
  have "leading_space [] = None" by (simp add: leading_space_def find_None_iff)
  moreover have "trailing_space [] = None" by (simp add: trailing_space_def find_None_iff)
  ultimately show ?thesis by (simp add: TrimSpace_def TrimLeft_no_space TrimRight_no_space)
qed

lemma TrimSpace_web07: "TrimSpace ''  web-07\<newline>'' = ''web-07''"
  by code_simp

lemma TrimSpace_newline: "TrimSpace ''\<newline>'' = []"
  by code_simp



subsection \<open>Making directories and writing files\<close>

lemma os_Mkdir_frame:
  assumes "os_Mkdir s p = (s', r)"
  shows "stat_fault s' = stat_fault s \<and> read_fault s' = read_fault s \<and>
         mkdir_fault s' = mkdir_fault s \<and> write_fault s' = write_fault s \<and>
         (\<forall>q. q \<noteq> p \<longrightarrow> nodes s' q = nodes s q)"
  using assms by (auto simp: os_Mkdir_def split: option.splits)

lemma os_Mkdir_ok:
  "os_Mkdir s p = (s', None) \<Longrightarrow> nodes s' p = Some Directory"
  by (auto simp: os_Mkdir_def split: option.splits)

lemma mkdir_all_frame:
  "mkdir_all s ps = (s', r) \<Longrightarrow>
   stat_fault s' = stat_fault s \<and> read_fault s' = read_fault s \<and>
   mkdir_fault s' = mkdir_fault s \<and> write_fault s' = write_fault s \<and>
   (\<forall>q. q \<notin> set ps \<longrightarrow> nodes s' q = nodes s q)"
proof (induction ps arbitrary: s' r)
  case Nil
  then show ?case by simp
next
  case (Cons p ups)
  show ?case
  proof (cases "os_Stat s p")
    case (Inr n)
    with Cons.prems show ?thesis by (cases n) auto
  next
    case (Inl e)
    obtain s1 r1 where m: "mkdir_all s ups = (s1, r1)" by (cases "mkdir_all s ups")
    note ih = Cons.IH [OF m]
    show ?thesis
    proof (cases r1)
      case (Some e')
      with Inl m Cons.prems have "s' = s1" by simp
      with ih show ?thesis by simp
    next
      case None
      with Inl m Cons.prems have "os_Mkdir s1 p = (s', r)" by simp
      from os_Mkdir_frame [OF this] ih show ?thesis by simp
    qed
  qed
qed

lemma mkdir_all_ok:
  "mkdir_all s (p # ups) = (s', None) \<Longrightarrow> nodes s' p = Some Directory"
proof -
  assume a: "mkdir_all s (p # ups) = (s', None)"
  show ?thesis
  proof (cases "os_Stat s p")
    case (Inr n)
    with a show ?thesis
      by (cases n) (auto simp: os_Stat_def split: option.splits)
  next
    case (Inl e)
    obtain s1 r1 where m: "mkdir_all s ups = (s1, r1)" by (cases "mkdir_all s ups")
    with Inl a have "os_Mkdir s1 p = (s', None)" by (cases r1) auto
    then show ?thesis by (rule os_Mkdir_ok)
  qed
qed

lemma mkdir_all_succeeds:
  assumes "distinct ps"
    and "\<forall>q\<in>set ps. stat_fault s q = None \<and> mkdir_fault s q = None \<and>
           (case nodes s q of Some (RegFile b) \<Rightarrow> False | _ \<Rightarrow> True)"
  shows "snd (mkdir_all s ps) = None"
  using assms
proof (induction ps)
  case Nil
  then show ?case by simp
next
  case (Cons p ups)
  from Cons.prems have sf: "stat_fault s p = None" and mf: "mkdir_fault s p = None"
    and nf: "case nodes s p of Some (RegFile b) \<Rightarrow> False | _ \<Rightarrow> True" by simp_all
  show ?case
  proof (cases "nodes s p")
    case None
    with sf have st: "os_Stat s p = Inl ErrNotExist" by (simp add: os_Stat_def)
    obtain s1 r1 where m: "mkdir_all s ups = (s1, r1)" by (cases "mkdir_all s ups")
    from Cons have "snd (mkdir_all s ups) = None" by simp
    with m have r1: "r1 = None" by simp
    from Cons.prems have "p \<notin> set ups" by simp
    with mkdir_all_frame [OF m] None mf have "nodes s1 p = None" "mkdir_fault s1 p = None"
      by simp_all
    then have "snd (os_Mkdir s1 p) = None" by (simp add: os_Mkdir_def)
    with st m r1 show ?thesis by simp
  next
    case (Some n)
    with nf have "n = Directory" by (cases n) simp_all
    with Some sf have "os_Stat s p = Inr Directory" by (simp add: os_Stat_def)
    then show ?thesis by simp
  qed
qed

lemma os_MkdirAll_ok:
  assumes "os_MkdirAll s d = (s', None)"
  shows "nodes s' d = Some Directory \<and> stat_fault s' = stat_fault s \<and>
         read_fault s' = read_fault s \<and> write_fault s' = write_fault s \<and>
         (\<forall>q. length d < length q \<longrightarrow> nodes s' q = nodes s q)"
proof -
  have r: "rev (dir_chain d) = d # rev (butlast (dir_chain d))"
    by (simp add: dir_chain_def)
  from assms have m: "mkdir_all s (d # rev (butlast (dir_chain d))) = (s', None)"
    by (simp add: os_MkdirAll_def r)
  have "nodes s' q = nodes s q" if "length d < length q" for q
  proof -
    from that have "q \<notin> set (dir_chain d)" using dir_chain_lengths [of q d] by auto
    then have "q \<notin> set (rev (dir_chain d))" by simp
    then have "q \<notin> set (d # rev (butlast (dir_chain d)))" unfolding r .
    with mkdir_all_frame [OF m] show ?thesis by blast
  qed
  with mkdir_all_ok [OF m] mkdir_all_frame [OF m] show ?thesis by simp
qed


subsection \<open>The cache file and its directory\<close>









lemma writeHostNameToFile_succeeds:
  assumes "accepts s f" and "length (Dir f) < length f"
  shows "snd (writeHostNameToFile s f h) = None"
proof -
  obtain s1 r1 where m: "os_MkdirAll s (Dir f) = (s1, r1)" by (cases "os_MkdirAll s (Dir f)")
  have "snd (mkdir_all s (rev (dir_chain (Dir f)))) = None"
  proof (rule mkdir_all_succeeds)
    show "distinct (rev (dir_chain (Dir f)))" by (simp add: dir_chain_distinct)
    from assms(1) show "\<forall>q\<in>set (rev (dir_chain (Dir f))).
        stat_fault s q = None \<and> mkdir_fault s q = None \<and>
        (case nodes s q of Some (RegFile b) \<Rightarrow> False | _ \<Rightarrow> True)"
      by (simp add: accepts_def)
  qed
  with m have r1: "os_MkdirAll s (Dir f) = (s1, None)" by (simp add: os_MkdirAll_def)
  have fr: "mkdir_fault s1 = mkdir_fault s \<and> write_fault s1 = write_fault s"
    using m mkdir_all_frame [of s "rev (dir_chain (Dir f))" s1 r1] by (simp add: os_MkdirAll_def)
  from os_MkdirAll_ok [OF r1] assms(2)
  have d: "nodes s1 (Dir f) = Some Directory" and n: "nodes s1 f = nodes s f" by simp_all
  from assms(1) have "write_fault s f = None" and "nodes s f \<noteq> Some Directory"
    by (simp_all add: accepts_def)
  with fr d n have "snd (os_WriteFile s1 f h) = None"
    by (auto simp: os_WriteFile_def split: option.splits node.splits)
  with r1 show ?thesis by (simp add: writeHostNameToFile_def)
qed

subsection \<open>Host name resolution: what is returned\<close>

lemma example_hostFile:
  "Join [''/opt/agent'', ''config'', HOST_NAME] = ''/opt/agent/config/hostname.txt''"
  by code_simp

lemma example_hostDir: "Dir ''/opt/agent/config/hostname.txt'' = ''/opt/agent/config''"
  by code_simp

lemma example_dir_chain:
  "dir_chain ''/opt/agent/config'' = [''/opt'', ''/opt/agent'', ''/opt/agent/config'']"
  by code_simp

lemma accepts_bare_fs: "accepts bare_fs ''/opt/agent/config/hostname.txt''"
  by (simp add: accepts_def example_hostDir example_dir_chain bare_fs_def)

lemma accepts_cached_fs: "accepts (cached_fs b) ''/opt/agent/config/hostname.txt''"
  by (simp add: accepts_def example_hostDir example_dir_chain cached_fs_def bare_fs_def)


text \<open>
  Claim C6. \<^verbatim>\<open>getHostname\<close> is total: for every installation directory and every
  state of the cache file and of the operating system it returns a string, with no
  error and no panic among its results. The string does not depend on the fate of the
  write-back: whatever calls to make the directory and to write the file the system
  refuses, the returned host name is the same.
\<close>

theorem getHostname_never_raises:
  "(\<exists>h w'. getHostname w d = (h, w')) \<and>
   fst (getHostname (w\<lparr>fs := (fs w)\<lparr>mkdir_fault := mk, write_fault := wr\<rparr>\<rparr>) d) =
     fst (getHostname w d)"
proof
  show "\<exists>h w'. getHostname w d = (h, w')" by (cases "getHostname w d") simp
  show "fst (getHostname (w\<lparr>fs := (fs w)\<lparr>mkdir_fault := mk, write_fault := wr\<rparr>\<rparr>) d) =
     fst (getHostname w d)"
    by (simp add: getHostname_value readHostNameFromFile_faults)
qed

lemma refused_write_example:
  "writeHostNameToFile (bare_fs\<lparr>mkdir_fault := (\<lambda>p. Some ErrPermission), write_fault := Map.empty\<rparr>)
     ''/opt/agent/config/hostname.txt'' h =
   (bare_fs\<lparr>mkdir_fault := (\<lambda>p. Some ErrPermission), write_fault := Map.empty\<rparr>, Some ErrPermission)"
  by (simp add: writeHostNameToFile_def example_hostDir os_MkdirAll_def example_dir_chain
      os_Stat_def os_Mkdir_def bare_fs_def)

theorem getHostname_never_raises_witness:
  "snd (writeHostNameToFile
          (bare_fs\<lparr>mkdir_fault := (\<lambda>p. Some ErrPermission), write_fault := Map.empty\<rparr>)
          ''/opt/agent/config/hostname.txt'' ''web-01'') = Some ErrPermission \<and>
   snd (writeHostNameToFile bare_fs ''/opt/agent/config/hostname.txt'' ''web-01'') = None \<and>
   fst (getHostname (example_world\<lparr>fs := bare_fs\<lparr>mkdir_fault := (\<lambda>p. Some ErrPermission),
          write_fault := Map.empty\<rparr>\<rparr>) ''/opt/agent'') = ''web-01'' \<and>
   fst (getHostname example_world ''/opt/agent'') = ''web-01''"
proof -
  have f: "fs example_world = bare_fs" by (simp add: example_world_def)
  have a: "snd (writeHostNameToFile bare_fs ''/opt/agent/config/hostname.txt'' ''web-01'') = None"
    by (rule writeHostNameToFile_succeeds [OF accepts_bare_fs]) (simp add: example_hostDir)
  have c: "fst (getHostname example_world ''/opt/agent'') = ''web-01''"
    by (simp add: getHostname_value example_hostFile f
        readHostNameFromFile_missing bare_fs_def) (simp add: example_world_def)
  show ?thesis
    using getHostname_never_raises [where w = example_world and d = "''/opt/agent''"
        and mk = "\<lambda>p. Some ErrPermission" and wr = Map.empty]
      a c f by (simp add: refused_write_example)
qed

text \<open>
  Claim C9. When the existence check says that the cache file does not exist and
  reports no error, \<^verbatim>\<open>readHostNameFromFile\<close> returns the empty string with a nil
  error; that is the case when no node is at the path and the check is not refused, and
  a cache file with no bytes in it is read with the same result. Every result with an
  error carries the empty string, and \<^verbatim>\<open>getHostname\<close> falls back to the host name of
  the operating system exactly when the string it has read is empty.
\<close>

theorem readHostNameFromFile_miss:
  "(PathExists s f = (False, None) \<longrightarrow> readHostNameFromFile s f = ([], None)) \<and>
   (stat_fault s f = None \<and> read_fault s f = None \<and> nodes s f = None \<longrightarrow>
      PathExists s f = (False, None) \<and>
      readHostNameFromFile (s\<lparr>nodes := (nodes s)(f \<mapsto> RegFile [])\<rparr>) f = readHostNameFromFile s f) \<and>
   (snd (readHostNameFromFile s f) \<noteq> None \<longrightarrow> fst (readHostNameFromFile s f) = []) \<and>
   fst (getHostname w d) =
     (if fst (readHostNameFromFile (fs w) (Join [d, ''config'', HOST_NAME])) = []
      then fst (Hostname w)
      else fst (readHostNameFromFile (fs w) (Join [d, ''config'', HOST_NAME])))"
proof (intro conjI impI)
  show "readHostNameFromFile s f = ([], None)" if "PathExists s f = (False, None)"
    using that by (simp add: readHostNameFromFile_def)
  show "PathExists s f = (False, None)"
    if "stat_fault s f = None \<and> read_fault s f = None \<and> nodes s f = None"
    using that by (simp add: PathExists_def os_Stat_def)
  show "readHostNameFromFile (s\<lparr>nodes := (nodes s)(f \<mapsto> RegFile [])\<rparr>) f = readHostNameFromFile s f"
    if "stat_fault s f = None \<and> read_fault s f = None \<and> nodes s f = None"
  proof -
    from that have "readHostNameFromFile s f = ([], None)"
      by (simp add: readHostNameFromFile_missing)
    moreover from that have "readHostNameFromFile (s\<lparr>nodes := (nodes s)(f \<mapsto> RegFile [])\<rparr>) f
        = (TrimSpace [], None)"
      by (intro readHostNameFromFile_file) simp_all
    ultimately show ?thesis by (simp add: TrimSpace_Nil)
  qed
  show "fst (readHostNameFromFile s f) = []" if "snd (readHostNameFromFile s f) \<noteq> None"
    using that by (rule readHostNameFromFile_error)
  show "fst (getHostname w d) =
     (if fst (readHostNameFromFile (fs w) (Join [d, ''config'', HOST_NAME])) = []
      then fst (Hostname w)
      else fst (readHostNameFromFile (fs w) (Join [d, ''config'', HOST_NAME])))"
    by (rule getHostname_value)
qed

theorem readHostNameFromFile_miss_witness:
  "PathExists bare_fs ''/opt/agent/config/hostname.txt'' = (False, None) \<and>
   readHostNameFromFile bare_fs ''/opt/agent/config/hostname.txt'' = ([], None) \<and>
   readHostNameFromFile
     (bare_fs\<lparr>nodes := (nodes bare_fs)(''/opt/agent/config/hostname.txt'' \<mapsto> RegFile [])\<rparr>)
     ''/opt/agent/config/hostname.txt'' = ([], None)"
proof -
  have "stat_fault bare_fs ''/opt/agent/config/hostname.txt'' = None \<and>
        read_fault bare_fs ''/opt/agent/config/hostname.txt'' = None \<and>
        nodes bare_fs ''/opt/agent/config/hostname.txt'' = None"
    by (simp add: bare_fs_def)
  with readHostNameFromFile_miss [of bare_fs "''/opt/agent/config/hostname.txt''"]
  show ?thesis by simp
qed

subsection \<open>Host name resolution: the cache\<close>


lemma getHostname_hit:
  assumes "nodes (fs w) (Join [d, ''config'', HOST_NAME]) = Some (RegFile b)"
    and "stat_fault (fs w) (Join [d, ''config'', HOST_NAME]) = None"
    and "read_fault (fs w) (Join [d, ''config'', HOST_NAME]) = None"
  shows "fst (getHostname w d) = (if TrimSpace b = [] then fst (Hostname w) else TrimSpace b)"
  using assms by (simp add: getHostname_value readHostNameFromFile_file)


lemma getHostname_keeps_Hostname: "Hostname (snd (getHostname w d)) = Hostname w"
  by (subst getHostname_world) simp




lemma cached_fs_file:
  "nodes (cached_fs b) ''/opt/agent/config/hostname.txt'' = Some (RegFile b) \<and>
   stat_fault (cached_fs b) ''/opt/agent/config/hostname.txt'' = None \<and>
   read_fault (cached_fs b) ''/opt/agent/config/hostname.txt'' = None"
  by (simp add: cached_fs_def bare_fs_def)


text \<open>
  Claim C2, as stated, fails on a cache file that exists and is readable but holds
  white space only: the file of the example holds one line feed, its trimmed contents
  are empty, and \<^verbatim>\<open>getHostname\<close> returns the host name of the operating system,
  \<^verbatim>\<open>web-01\<close>, not the empty string.
\<close>

theorem getHostname_blank_cache_counterexample:
  "os_ReadFile (cached_fs ''\<newline>'') (Join [''/opt/agent'', ''config'', HOST_NAME]) = Inr ''\<newline>'' \<and>
   TrimSpace ''\<newline>'' = [] \<and>
   fst (getHostname (example_world\<lparr>fs := cached_fs ''\<newline>''\<rparr>) ''/opt/agent'') = ''web-01''"
proof -
  have h: "fst (Hostname example_world) = ''web-01''" by (simp add: example_world_def)
  have r: "os_ReadFile (cached_fs ''\<newline>'') ''/opt/agent/config/hostname.txt'' = Inr ''\<newline>''"
    using cached_fs_file [of "''\<newline>''"] by (simp add: os_ReadFile_def)
  have "fst (getHostname (example_world\<lparr>fs := cached_fs ''\<newline>''\<rparr>) ''/opt/agent'') =
      (if TrimSpace ''\<newline>'' = [] then fst (Hostname (example_world\<lparr>fs := cached_fs ''\<newline>''\<rparr>))
       else TrimSpace ''\<newline>'')"
    using cached_fs_file [of "''\<newline>''"] by (intro getHostname_hit) (simp_all add: example_hostFile)
  with h r show ?thesis by (simp add: TrimSpace_newline example_hostFile)
qed

text \<open>
  Claim C2, amended. For every installation directory whose cache file is a regular
  file that the existence check and the read are not refused on, \<^verbatim>\<open>getHostname\<close>
  returns the contents of the file with the surrounding white space trimmed whenever
  the trimmed contents are not empty, and the host name of the operating system when
  they are empty. The file holding two spaces, \<^verbatim>\<open>web-07\<close> and a line feed resolves to
  \<^verbatim>\<open>web-07\<close>.
\<close>

theorem getHostname_cache_hit:
  assumes "nodes (fs w) (Join [d, ''config'', HOST_NAME]) = Some (RegFile b)"
    and "stat_fault (fs w) (Join [d, ''config'', HOST_NAME]) = None"
    and "read_fault (fs w) (Join [d, ''config'', HOST_NAME]) = None"
  shows "fst (getHostname w d) = (if TrimSpace b = [] then fst (Hostname w) else TrimSpace b)"
  using assms by (rule getHostname_hit)

theorem getHostname_cache_hit_witness:
  "nodes (fs (example_world\<lparr>fs := cached_fs ''  web-07\<newline>''\<rparr>))
     (Join [''/opt/agent'', ''config'', HOST_NAME]) = Some (RegFile ''  web-07\<newline>'') \<and>
   stat_fault (fs (example_world\<lparr>fs := cached_fs ''  web-07\<newline>''\<rparr>))
     (Join [''/opt/agent'', ''config'', HOST_NAME]) = None \<and>
   read_fault (fs (example_world\<lparr>fs := cached_fs ''  web-07\<newline>''\<rparr>))
     (Join [''/opt/agent'', ''config'', HOST_NAME]) = None \<and>
   fst (getHostname (example_world\<lparr>fs := cached_fs ''  web-07\<newline>''\<rparr>) ''/opt/agent'') =
     ''web-07''"
proof -
  let ?w = "example_world\<lparr>fs := cached_fs ''  web-07\<newline>''\<rparr>"
  have a: "nodes (fs ?w) (Join [''/opt/agent'', ''config'', HOST_NAME]) =
      Some (RegFile ''  web-07\<newline>'')"
    and b: "stat_fault (fs ?w) (Join [''/opt/agent'', ''config'', HOST_NAME]) = None"
    and c: "read_fault (fs ?w) (Join [''/opt/agent'', ''config'', HOST_NAME]) = None"
    using cached_fs_file [of "''  web-07\<newline>''"] by (simp_all add: example_hostFile)
  from getHostname_cache_hit [OF a b c] a b c show ?thesis
    by (simp add: TrimSpace_web07)
qed







subsection \<open>The snapshot builder\<close>

lemma getHostname_keeps:
  "GOOS (snd (getHostname w d)) = GOOS w \<and>
   JRASP_DAEMON_VERSION (snd (getHostname w d)) = JRASP_DAEMON_VERSION w \<and>
   DAEMON_PID_FILE (snd (getHostname w d)) = DAEMON_PID_FILE w \<and>
   BuildDateTime_var (snd (getHostname w d)) = BuildDateTime_var w \<and>
   BuildGitBranch_var (snd (getHostname w d)) = BuildGitBranch_var w \<and>
   BuildGitCommit_var (snd (getHostname w d)) = BuildGitCommit_var w \<and>
   BuildDecryptKey_var (snd (getHostname w d)) = BuildDecryptKey_var w"
  by (subst (1 2 3 4 5 6 7) getHostname_world) simp

lemma NewEnviron_Abs_Inl:
  "Abs (Getwd w) (Args0 w) = Inl e \<Longrightarrow> NewEnviron w = (Err e, w)"
  by (simp add: NewEnviron_def)

lemma NewEnviron_Md5_Inl:
  "Abs (Getwd w) (Args0 w) = Inr p \<Longrightarrow> GetFileMd5 w p = Inl e \<Longrightarrow> NewEnviron w = (Err e, w)"
  by (simp add: NewEnviron_def)

lemma NewEnviron_connect_Inl:
  "Abs (Getwd w) (Args0 w) = Inr p \<Longrightarrow> GetFileMd5 w p = Inr h \<Longrightarrow>
   connect w ''udp'' ''114.114.114.114:53'' = Inl e \<Longrightarrow> NewEnviron w = (Err e, w)"
  by (simp add: NewEnviron_def GetDefaultIp_connect_Inl)

lemma NewEnviron_assert_Panic:
  "Abs (Getwd w) (Args0 w) = Inr p \<Longrightarrow> GetFileMd5 w p = Inr h \<Longrightarrow>
   connect w ''udp'' ''114.114.114.114:53'' = Inr a \<Longrightarrow> \<forall>ip port. a \<noteq> UDPAddr ip port \<Longrightarrow>
   NewEnviron w = (Panic, w)"
  by (simp add: NewEnviron_def GetDefaultIp_connect_other)

lemma NewEnviron_nil_Panic:
  "Abs (Getwd w) (Args0 w) = Inr p \<Longrightarrow> GetFileMd5 w p = Inr h \<Longrightarrow>
   connect w ''udp'' ''114.114.114.114:53'' = Inr (UDPAddr ip port) \<Longrightarrow>
   fst (VirtualMemory w) = None \<Longrightarrow>
   NewEnviron w = (Panic, snd (getHostname w (Dir (Dir p))))"
  by (simp add: NewEnviron_def GetDefaultIp_connect_Inr Let_def split: prod.splits)

lemma NewEnviron_Ok:
  assumes "Abs (Getwd w) (Args0 w) = Inr p" and "GetFileMd5 w p = Inr h"
    and "connect w ''udp'' ''114.114.114.114:53'' = Inr (UDPAddr ip port)"
    and "fst (VirtualMemory w) = Some m"
  shows "NewEnviron w =
    (Ok \<lparr>InstallDir = Dir (Dir p),
         HostName = fst (getHostname w (Dir (Dir p))),
         Ip = IP_String ip,
         OsType = GOOS w,
         BinFileName = Base p,
         BinFileHash = h,
         TotalMem = Total m div GB,
         CpuCounts = fst (Counts w),
         FreeDisk = fst (GetInstallDisk w (Dir (Dir p))),
         Version = JRASP_DAEMON_VERSION w,
         BuildDateTime = BuildDateTime_var w,
         BuildGitBranch = BuildGitBranch_var w,
         BuildGitCommit = BuildGitCommit_var w,
         BuildDecryptKey = BuildDecryptKey_var w,
         PidFile = Join [Dir (Dir p), DAEMON_PID_FILE w],
         IsContainer = fst (PathExists (fs w) ''/.dockerenv''),
         IsConnectServer = False\<rparr>,
     snd (getHostname w (Dir (Dir p))))"
proof -
  obtain hn w2 where g: "getHostname w (Dir (Dir p)) = (hn, w2)"
    by (cases "getHostname w (Dir (Dir p))")
  from getHostname_keeps [of w "Dir (Dir p)"] g
  have k: "GOOS w2 = GOOS w" "JRASP_DAEMON_VERSION w2 = JRASP_DAEMON_VERSION w"
    "DAEMON_PID_FILE w2 = DAEMON_PID_FILE w" "BuildDateTime_var w2 = BuildDateTime_var w"
    "BuildGitBranch_var w2 = BuildGitBranch_var w" "BuildGitCommit_var w2 = BuildGitCommit_var w"
    "BuildDecryptKey_var w2 = BuildDecryptKey_var w"
    by simp_all
  from assms g k show ?thesis
    by (simp add: NewEnviron_def GetDefaultIp_connect_Inr Let_def)
qed

lemma NewEnviron_cases:
  "(\<exists>e. fst (NewEnviron w) = Err e \<and>
      (Abs (Getwd w) (Args0 w) = Inl e \<or>
       (\<exists>p. Abs (Getwd w) (Args0 w) = Inr p \<and>
          (GetFileMd5 w p = Inl e \<or>
           (\<exists>h. GetFileMd5 w p = Inr h) \<and> connect w ''udp'' ''114.114.114.114:53'' = Inl e)))) \<or>
   (\<exists>p h a. fst (NewEnviron w) = Panic \<and> Abs (Getwd w) (Args0 w) = Inr p \<and> GetFileMd5 w p = Inr h \<and>
      connect w ''udp'' ''114.114.114.114:53'' = Inr a \<and>
      ((\<forall>ip port. a \<noteq> UDPAddr ip port) \<or> fst (VirtualMemory w) = None)) \<or>
   (\<exists>p h ip port m env. fst (NewEnviron w) = Ok env \<and> Abs (Getwd w) (Args0 w) = Inr p \<and>
      GetFileMd5 w p = Inr h \<and> connect w ''udp'' ''114.114.114.114:53'' = Inr (UDPAddr ip port) \<and>
      fst (VirtualMemory w) = Some m \<and>
      NewEnviron w =
        (Ok \<lparr>InstallDir = Dir (Dir p),
         HostName = fst (getHostname w (Dir (Dir p))),
         Ip = IP_String ip,
         OsType = GOOS w,
         BinFileName = Base p,
         BinFileHash = h,
         TotalMem = Total m div GB,
         CpuCounts = fst (Counts w),
         FreeDisk = fst (GetInstallDisk w (Dir (Dir p))),
         Version = JRASP_DAEMON_VERSION w,
         BuildDateTime = BuildDateTime_var w,
         BuildGitBranch = BuildGitBranch_var w,
         BuildGitCommit = BuildGitCommit_var w,
         BuildDecryptKey = BuildDecryptKey_var w,
         PidFile = Join [Dir (Dir p), DAEMON_PID_FILE w],
         IsContainer = fst (PathExists (fs w) ''/.dockerenv''),
         IsConnectServer = False\<rparr>,
     snd (getHostname w (Dir (Dir p)))))"
proof (cases "Abs (Getwd w) (Args0 w)")
  case (Inl e)
  then show ?thesis by (simp add: NewEnviron_Abs_Inl)
next
  case p: (Inr p)
  show ?thesis
  proof (cases "GetFileMd5 w p")
    case (Inl e)
    with p show ?thesis by (simp add: NewEnviron_Md5_Inl)
  next
    case h: (Inr h)
    show ?thesis
    proof (cases "connect w ''udp'' ''114.114.114.114:53''")
      case (Inl e)
      with p h show ?thesis by (simp add: NewEnviron_connect_Inl)
    next
      case a: (Inr a)
      show ?thesis
      proof (cases "\<exists>ip port. a = UDPAddr ip port")
        case False
        with p h a have "NewEnviron w = (Panic, w)" by (simp add: NewEnviron_assert_Panic)
        with p h a False show ?thesis by simp
      next
        case True
        then obtain ip port where u: "a = UDPAddr ip port" by blast
        show ?thesis
        proof (cases "fst (VirtualMemory w)")
          case None
          with p h a u have "fst (NewEnviron w) = Panic" by (simp add: NewEnviron_nil_Panic)
          with p h a None show ?thesis by simp
        next
          case (Some m)
          from p h a u Some NewEnviron_Ok [of w p h ip port m] show ?thesis by simp
        qed
      qed
    qed
  qed
qed

lemma NewEnviron_Err_iff:
  "(\<exists>e. fst (NewEnviron w) = Err e) \<longleftrightarrow>
     (\<exists>e. Abs (Getwd w) (Args0 w) = Inl e) \<or>
     (\<exists>p. Abs (Getwd w) (Args0 w) = Inr p \<and>
        ((\<exists>e. GetFileMd5 w p = Inl e) \<or>
         (\<exists>e. connect w ''udp'' ''114.114.114.114:53'' = Inl e)))"
  using NewEnviron_cases [of w] by (auto simp: NewEnviron_Md5_Inl)

lemma NewEnviron_Ok_iff:
  "(\<exists>env. fst (NewEnviron w) = Ok env) \<longleftrightarrow>
     (\<exists>p h ip port m. Abs (Getwd w) (Args0 w) = Inr p \<and> GetFileMd5 w p = Inr h \<and>
        connect w ''udp'' ''114.114.114.114:53'' = Inr (UDPAddr ip port) \<and>
        fst (VirtualMemory w) = Some m)"
  using NewEnviron_cases [of w] by (auto simp: NewEnviron_Ok)

lemma PathExists_fst: "fst (PathExists s p) \<longleftrightarrow> stat_fault s p = None \<and> nodes s p \<noteq> None"
  by (auto simp: PathExists_def os_Stat_def split: option.splits)

lemma GetInstallDisk_error: "Usage w d = Inl e \<Longrightarrow> GetInstallDisk w d = (0, Some e)"
  by (simp add: GetInstallDisk_def)

lemma NewEnviron_degrades:
  assumes "Abs (Getwd w) (Args0 w) = Inr p" and "GetFileMd5 w p = Inr h"
    and "connect w ''udp'' ''114.114.114.114:53'' = Inr (UDPAddr ip port)"
    and "fst (VirtualMemory w) = Some m"
  shows "\<exists>env. fst (NewEnviron w) = Ok env \<and>
           TotalMem env = Total m div GB \<and>
           CpuCounts env = fst (Counts w) \<and>
           (\<forall>e. Usage w (Dir (Dir p)) = Inl e \<longrightarrow> FreeDisk env = 0) \<and>
           (\<forall>e. stat_fault (fs w) ''/.dockerenv'' = Some e \<longrightarrow> \<not> IsContainer env)"
  using NewEnviron_Ok [OF assms]
  by (auto simp: GetInstallDisk_error PathExists_fst)

lemma example_Abs:
  "Abs (Getwd example_world) (Args0 example_world) = Inr ''/opt/agent/bin/agentd''"
proof -
  have "Abs (Inr ''/'') ''/opt/agent/bin/agentd'' = Inr ''/opt/agent/bin/agentd''"
    by code_simp
  then show ?thesis by (simp add: example_world_def)
qed

lemma example_installDir: "Dir (Dir ''/opt/agent/bin/agentd'') = ''/opt/agent''"
  by code_simp

lemma example_GB: "(17179869184 :: 64 word) div GB = 16"
  by (simp add: GB_def)

text \<open>
  Claim C1. With the executable path, the hash and the route probe all succeeding,
  \<^verbatim>\<open>mem.VirtualMemory\<close> failing with a nil pointer makes \<^verbatim>\<open>NewEnviron\<close> panic at
  \<^verbatim>\<open>memInfo.Total\<close>: no snapshot and no error is returned. On the same machine with the
  memory statistics at hand the snapshot is built.
\<close>

theorem NewEnviron_nil_memInfo_panics:
  "fst (NewEnviron (example_world\<lparr>VirtualMemory := (None, Some (ErrOther ''meminfo''))\<rparr>)) = Panic \<and>
   (case fst (NewEnviron example_world) of Ok env \<Rightarrow> TotalMem env = 16 | _ \<Rightarrow> False)"
proof -
  let ?w = "example_world\<lparr>VirtualMemory := (None, Some (ErrOther ''meminfo''))\<rparr>"
  have a: "Abs (Getwd ?w) (Args0 ?w) = Inr ''/opt/agent/bin/agentd''"
    using example_Abs by simp
  have "fst (NewEnviron ?w) = Panic"
    using NewEnviron_nil_Panic [OF a, of "''9e107d9d372bb6826bd81d3542a419d6''" "(10, 0, 0, 7)" 40000]
    by (simp add: example_world_def)
  moreover have "fst (NewEnviron example_world) =
      Ok \<lparr>InstallDir = Dir (Dir ''/opt/agent/bin/agentd''),
         HostName = fst (getHostname example_world (Dir (Dir ''/opt/agent/bin/agentd''))),
         Ip = IP_String (10, 0, 0, 7),
         OsType = GOOS example_world,
         BinFileName = Base ''/opt/agent/bin/agentd'',
         BinFileHash = ''9e107d9d372bb6826bd81d3542a419d6'',
         TotalMem = Total \<lparr>Total = 17179869184\<rparr> div GB,
         CpuCounts = fst (Counts example_world),
         FreeDisk = fst (GetInstallDisk example_world (Dir (Dir ''/opt/agent/bin/agentd''))),
         Version = JRASP_DAEMON_VERSION example_world,
         BuildDateTime = BuildDateTime_var example_world,
         BuildGitBranch = BuildGitBranch_var example_world,
         BuildGitCommit = BuildGitCommit_var example_world,
         BuildDecryptKey = BuildDecryptKey_var example_world,
         PidFile = Join [Dir (Dir ''/opt/agent/bin/agentd''), DAEMON_PID_FILE example_world],
         IsContainer = fst (PathExists (fs example_world) ''/.dockerenv''),
         IsConnectServer = False\<rparr>"
    using NewEnviron_Ok [OF example_Abs, of "''9e107d9d372bb6826bd81d3542a419d6''" "(10, 0, 0, 7)" 40000
        "\<lparr>Total = 17179869184\<rparr>"]
    by (simp add: example_world_def)
  ultimately show ?thesis by (simp add: example_GB)
qed

lemma Abs_rooted_shape:
  assumes "Abs wd a = Inr p" and "IsAbs a \<or> (\<exists>d. wd = Inr d \<and> IsAbs d)"
  shows "\<exists>cs. (\<forall>c\<in>set cs. proper c) \<and> p = CHR ''/'' # join_sep cs"
proof (cases "IsAbs a")
  case True
  with assms(1) have "p = Clean a" by (simp add: Abs_def)
  with Clean_rooted_shape [OF True] show ?thesis by simp
next
  case False
  with assms(2) obtain d where d: "wd = Inr d" "IsAbs d" by blast
  then have dn: "d \<noteq> []" by (auto simp: IsAbs_def)
  with False d assms(1) have p: "p = Clean (d @ CHR ''/'' # a)"
    by (simp add: Abs_def Join_def)
  from d dn have "IsAbs (d @ CHR ''/'' # a)" by (cases d) (simp_all add: IsAbs_def)
  from Clean_rooted_shape [OF this] p show ?thesis by simp
qed

lemma Dir_Dir_root_join:
  assumes "\<forall>c\<in>set cs. proper c"
  shows "Dir (Dir (CHR ''/'' # join_sep cs)) = CHR ''/'' # join_sep (butlast (butlast cs))"
proof -
  from assms have "\<forall>c\<in>set (butlast cs). proper c" by (auto dest: in_set_butlastD)
  then have "Dir (CHR ''/'' # join_sep (butlast cs)) = CHR ''/'' # join_sep (butlast (butlast cs))"
    by (rule Dir_root_join)
  with Dir_root_join [OF assms] show ?thesis by simp
qed

text \<open>
  Claim C7. In every snapshot that \<^verbatim>\<open>NewEnviron\<close> returns, the installation directory
  is the directory of the directory of the path that \<^verbatim>\<open>filepath.Abs\<close> resolved for the
  executable. When the executable is named by an absolute path, or the working
  directory is absolute, the resolved path is the separator followed by a list of names,
  and the installation directory is the same path without its last two names: for
  \<^verbatim>\<open>/opt/agent/bin/agentd\<close> it is \<^verbatim>\<open>/opt/agent\<close>.
\<close>

theorem NewEnviron_installDir:
  assumes "fst (NewEnviron w) = Ok env"
  shows "\<exists>p. Abs (Getwd w) (Args0 w) = Inr p \<and> InstallDir env = Dir (Dir p) \<and>
           (IsAbs (Args0 w) \<or> (\<exists>d. Getwd w = Inr d \<and> IsAbs d) \<longrightarrow>
              (\<exists>cs. (\<forall>c\<in>set cs. proper c) \<and> p = CHR ''/'' # join_sep cs \<and>
                 InstallDir env = CHR ''/'' # join_sep (butlast (butlast cs))))"
proof -
  from NewEnviron_cases [of w] assms obtain p where
    p: "Abs (Getwd w) (Args0 w) = Inr p" and i: "InstallDir env = Dir (Dir p)"
    by auto
  have "\<exists>cs. (\<forall>c\<in>set cs. proper c) \<and> p = CHR ''/'' # join_sep cs \<and>
          InstallDir env = CHR ''/'' # join_sep (butlast (butlast cs))"
    if "IsAbs (Args0 w) \<or> (\<exists>d. Getwd w = Inr d \<and> IsAbs d)"
  proof -
    from Abs_rooted_shape [OF p that] obtain cs where
      cs: "\<forall>c\<in>set cs. proper c" "p = CHR ''/'' # join_sep cs" by blast
    with i Dir_Dir_root_join [OF cs(1)] show ?thesis by auto
  qed
  with p i show ?thesis by blast
qed

theorem NewEnviron_installDir_witness:
  "IsAbs (Args0 example_world) \<and>
   Abs (Getwd example_world) (Args0 example_world) = Inr ''/opt/agent/bin/agentd'' \<and>
   (case fst (NewEnviron example_world) of Ok env \<Rightarrow> InstallDir env = ''/opt/agent'' | _ \<Rightarrow> False)"
proof -
  have a: "IsAbs (Args0 example_world)" by (simp add: example_world_def IsAbs_def)
  have "\<exists>env. fst (NewEnviron example_world) = Ok env"
    unfolding NewEnviron_Ok_iff using example_Abs by (simp add: example_world_def)
  then obtain env where e: "fst (NewEnviron example_world) = Ok env" by blast
  from NewEnviron_installDir [OF e] example_Abs have "InstallDir env = ''/opt/agent''"
    by (auto simp: example_installDir)
  with a e example_Abs show ?thesis by simp
qed

text \<open>
  Claim C8. In every snapshot that \<^verbatim>\<open>NewEnviron\<close> returns, \<^verbatim>\<open>IsContainer\<close> is true
  exactly when the existence check of \<^verbatim>\<open>/.dockerenv\<close> is not refused and a node is at
  that path: it is false when the marker is absent and false when the check ends in an
  error. The function \<^verbatim>\<open>isContainer\<close> computes the same value. Whether a snapshot is
  returned does not depend on the marker: it is the same for every node or absence at
  the path and for every outcome of the check.
\<close>

theorem NewEnviron_isContainer:
  "(fst (NewEnviron w) = Ok env \<longrightarrow>
      (IsContainer env \<longleftrightarrow>
         stat_fault (fs w) ''/.dockerenv'' = None \<and> nodes (fs w) ''/.dockerenv'' \<noteq> None)) \<and>
   (isContainer w \<longleftrightarrow>
      stat_fault (fs w) ''/.dockerenv'' = None \<and> nodes (fs w) ''/.dockerenv'' \<noteq> None) \<and>
   ((\<exists>env'. fst (NewEnviron (w\<lparr>fs := (fs w)\<lparr>nodes := (nodes (fs w))(''/.dockerenv'' := n),
        stat_fault := (stat_fault (fs w))(''/.dockerenv'' := x)\<rparr>\<rparr>)) = Ok env') \<longleftrightarrow>
    (\<exists>env'. fst (NewEnviron w) = Ok env'))"
proof (intro conjI impI)
  assume "fst (NewEnviron w) = Ok env"
  with NewEnviron_cases [of w]
  have "IsContainer env = fst (PathExists (fs w) ''/.dockerenv'')" by auto
  then show "IsContainer env \<longleftrightarrow>
      stat_fault (fs w) ''/.dockerenv'' = None \<and> nodes (fs w) ''/.dockerenv'' \<noteq> None"
    by (simp add: PathExists_fst)
next
  show "isContainer w \<longleftrightarrow>
      stat_fault (fs w) ''/.dockerenv'' = None \<and> nodes (fs w) ''/.dockerenv'' \<noteq> None"
    by (simp add: isContainer_def PathExists_fst)
next
  show "(\<exists>env'. fst (NewEnviron (w\<lparr>fs := (fs w)\<lparr>nodes := (nodes (fs w))(''/.dockerenv'' := n),
        stat_fault := (stat_fault (fs w))(''/.dockerenv'' := x)\<rparr>\<rparr>)) = Ok env') \<longleftrightarrow>
    (\<exists>env'. fst (NewEnviron w) = Ok env')"
    unfolding NewEnviron_Ok_iff by simp
qed

theorem NewEnviron_isContainer_witness:
  "(case fst (NewEnviron example_world) of Ok env \<Rightarrow> \<not> IsContainer env | _ \<Rightarrow> False) \<and>
   (case fst (NewEnviron (example_world\<lparr>fs := bare_fs\<lparr>nodes := (nodes bare_fs)(''/.dockerenv'' \<mapsto> RegFile []),
        stat_fault := (stat_fault bare_fs)(''/.dockerenv'' := None)\<rparr>\<rparr>)) of
      Ok env \<Rightarrow> IsContainer env | _ \<Rightarrow> False) \<and>
   (case fst (NewEnviron (example_world\<lparr>fs := bare_fs\<lparr>nodes := (nodes bare_fs)(''/.dockerenv'' \<mapsto> RegFile []),
        stat_fault := (stat_fault bare_fs)(''/.dockerenv'' \<mapsto> ErrPermission)\<rparr>\<rparr>)) of
      Ok env \<Rightarrow> \<not> IsContainer env | _ \<Rightarrow> False)"
proof -
  let ?m = "example_world\<lparr>fs := bare_fs\<lparr>nodes := (nodes bare_fs)(''/.dockerenv'' \<mapsto> RegFile []),
        stat_fault := (stat_fault bare_fs)(''/.dockerenv'' := None)\<rparr>\<rparr>"
  let ?f = "example_world\<lparr>fs := bare_fs\<lparr>nodes := (nodes bare_fs)(''/.dockerenv'' \<mapsto> RegFile []),
        stat_fault := (stat_fault bare_fs)(''/.dockerenv'' \<mapsto> ErrPermission)\<rparr>\<rparr>"
  have f: "fs example_world = bare_fs" by (simp add: example_world_def)
  have "\<exists>env. fst (NewEnviron example_world) = Ok env"
    unfolding NewEnviron_Ok_iff using example_Abs by (simp add: example_world_def)
  then obtain e0 where e0: "fst (NewEnviron example_world) = Ok e0" by blast
  from NewEnviron_isContainer [where w = example_world and env = e0 and n = "Some (RegFile [])"
      and x = None] e0 f
  obtain e1 where e1: "fst (NewEnviron ?m) = Ok e1" by auto
  from NewEnviron_isContainer [where w = example_world and env = e0 and n = "Some (RegFile [])"
      and x = "Some ErrPermission"] e0 f
  obtain e2 where e2: "fst (NewEnviron ?f) = Ok e2" by auto
  from NewEnviron_isContainer [where w = example_world and env = e0] e0 f
  have "\<not> IsContainer e0" by (simp add: bare_fs_def)
  moreover from NewEnviron_isContainer [where w = ?m and env = e1] e1
  have "IsContainer e1" by simp
  moreover from NewEnviron_isContainer [where w = ?f and env = e2] e2
  have "\<not> IsContainer e2" by simp
  ultimately show ?thesis using e0 e1 e2 by simp
qed

end
